theory Spec2Isabelle
  imports Main
begin

section \<open>The logging facade of cpp/src/arrow/util/logging.cc\<close>

text \<open>
  The file is compiled in one of two configurations, chosen by the preprocessor:
  with \<^verbatim>\<open>ARROW_USE_GLOG\<close> every record is handed to glog (the delegated sink),
  without it every record is written by the class \<^verbatim>\<open>CerrLog\<close> (the direct
  console sink). The configuration is a value of type \<open>build\<close> that every operation
  takes; each \<^verbatim>\<open>#ifdef\<close> of the source is an \<open>if\<close> on it.

  Everything the code does to the outside world is an \<open>event\<close>; an operation
  returns the events it performs, in order, together with its outcome.
\<close>

subsection \<open>Build configuration, events and outcomes\<close>

record build =
  use_glog :: bool      \<comment> \<open>\<^verbatim>\<open>ARROW_USE_GLOG\<close> is defined\<close>
  win32 :: bool         \<comment> \<open>\<^verbatim>\<open>_WIN32\<close> is defined\<close>
  execinfo_h :: bool    \<comment> \<open>\<^verbatim>\<open>_EXECINFO_H\<close> is defined\<close>
  this_file :: string   \<comment> \<open>the expansion of \<^verbatim>\<open>__FILE__\<close> in logging.cc\<close>

text \<open>File descriptors of the two console streams.\<close>

definition STDOUT_FILENO :: nat where
  "STDOUT_FILENO = 1"

definition STDERR_FILENO :: nat where
  "STDERR_FILENO = 2"

datatype event =
    Write nat string                 \<comment> \<open>characters written to a file descriptor\<close>
  | Flush nat                        \<comment> \<open>the flush that \<^verbatim>\<open>std::endl\<close> performs\<close>
  | BacktraceDump nat                \<comment> \<open>\<^verbatim>\<open>backtrace_symbols_fd(buffer, calls, fd)\<close>\<close>
  | Abort                            \<comment> \<open>\<^verbatim>\<open>std::abort()\<close>\<close>
  | InitGoogleLogging string
  | SetStderrLogging int
  | SetLogFilenameExtension string
  | SetLogDestination int string
  | ShutdownGoogleLogging
  | GlogInstallFailureSignalHandler
  | LogMessageNew string int int     \<comment> \<open>\<^verbatim>\<open>new google::LogMessage(file, line, severity)\<close>\<close>
  | LogMessageWrite "string option"  \<comment> \<open>a C string put on the message's stream; \<open>None\<close> is a null pointer\<close>
  | LogMessageDelete int             \<comment> \<open>\<^verbatim>\<open>delete\<close> of a message of the given glog severity\<close>

text \<open>
  An operation either returns a value, or the process is gone before it returns
  (\<open>Terminated\<close>, after an \<open>Abort\<close> event), or it dereferences a null pointer,
  or it reinterprets a pointer as a class the object is not (\<open>BadCast\<close>).
\<close>

datatype 'a outcome = Done 'a | Terminated | NullDereference | BadCast

type_synonym 'a comp = "event list \<times> 'a outcome"

definition ret :: "'a \<Rightarrow> 'a comp" where
  "ret x = ([], Done x)"

definition emit :: "event list \<Rightarrow> unit comp" where
  "emit es = (es, Done ())"

definition bind :: "'a comp \<Rightarrow> ('a \<Rightarrow> 'b comp) \<Rightarrow> 'b comp" where
  "bind m f =
     (case snd m of
        Done x \<Rightarrow> (fst m @ fst (f x), snd (f x))
      | Terminated \<Rightarrow> (fst m, Terminated)
      | NullDereference \<Rightarrow> (fst m, NullDereference)
      | BadCast \<Rightarrow> (fst m, BadCast))"

text \<open>What a trace put on one file descriptor.\<close>

fun written :: "nat \<Rightarrow> event list \<Rightarrow> string" where
  "written fd [] = []"
| "written fd (Write fd' s # es) = (if fd' = fd then s @ written fd es else written fd es)"
| "written fd (e # es) = written fd es"

subsection \<open>Severities\<close>

text \<open>
  Modelled from the spec: the severity constants \<^verbatim>\<open>ARROW_DEBUG\<close> ...
  \<^verbatim>\<open>ARROW_FATAL\<close> come from arrow/util/logging.h, which is not among the sources.
  The spec fixes their order, DEBUG < INFO < WARNING < ERROR < FATAL; the code passes
  them as plain \<^verbatim>\<open>int\<close>, so they are consecutive integers here, INFO being 0.
  No arithmetic is done on severities, only comparison, so \<open>int\<close> stands for the
  machine type.
\<close>

definition ARROW_DEBUG :: int where
  "ARROW_DEBUG = - 1"

definition ARROW_INFO :: int where
  "ARROW_INFO = 0"

definition ARROW_WARNING :: int where
  "ARROW_WARNING = 1"

definition ARROW_ERROR :: int where
  "ARROW_ERROR = 2"

definition ARROW_FATAL :: int where
  "ARROW_FATAL = 3"

text \<open>The severities of glog (\<^verbatim>\<open>google::GLOG_INFO\<close> ...), as glog numbers them.\<close>

definition GLOG_INFO :: int where
  "GLOG_INFO = 0"

definition GLOG_WARNING :: int where
  "GLOG_WARNING = 1"

definition GLOG_ERROR :: int where
  "GLOG_ERROR = 2"

definition GLOG_FATAL :: int where
  "GLOG_FATAL = 3"

subsection \<open>Values put on a stream\<close>

text \<open>
  The source streams C strings and \<^verbatim>\<open>int\<close>s. An \<^verbatim>\<open>int\<close> is rendered in
  decimal, with a minus sign when negative.
\<close>

datatype item = Str string | Num int

fun digits :: "nat \<Rightarrow> string" where
  "digits n =
     (if n < 10 then [''0123456789'' ! n]
      else digits (n div 10) @ [''0123456789'' ! (n mod 10)])"

declare digits.simps [simp del]

definition render :: "item \<Rightarrow> string" where
  "render t =
     (case t of
        Str s \<Rightarrow> s
      | Num i \<Rightarrow> (if i < 0 then CHR ''-'' # digits (nat (- i)) else digits (nat i)))"

subsection \<open>The direct console sink: class CerrLog\<close>

text \<open>
  Isabelle does not accept a name that ends in an underscore, so the data members
  \<^verbatim>\<open>severity_\<close>, \<^verbatim>\<open>has_logged_\<close>, ... of the source carry the suffix \<open>m\<close>.
\<close>

record CerrLog =
  severity_m :: int
  has_logged_m :: bool

definition CerrLog_new :: "int \<Rightarrow> CerrLog" where
  "CerrLog_new severity = \<lparr>severity_m = severity, has_logged_m = False\<rparr>"

text \<open>
  \<^verbatim>\<open>Stream()\<close> marks the sink as having logged and hands out \<^verbatim>\<open>std::cerr\<close>.
  What the caller then puts on the returned stream reaches standard error whatever
  the severity of the sink is.
\<close>

datatype ostream = StdCerr | LogMessageStream

definition ostream_put :: "ostream \<Rightarrow> item \<Rightarrow> event list" where
  "ostream_put os t =
     (case os of
        StdCerr \<Rightarrow> [Write STDERR_FILENO (render t)]
      | LogMessageStream \<Rightarrow> [LogMessageWrite (Some (render t))])"

definition CerrLog_Stream :: "CerrLog \<Rightarrow> CerrLog \<times> ostream" where
  "CerrLog_Stream c = (c\<lparr>has_logged_m := True\<rparr>, StdCerr)"

text \<open>\<^verbatim>\<open>operator<<\<close> of the sink: the only place that looks at DEBUG.\<close>

definition CerrLog_put :: "CerrLog \<Rightarrow> item \<Rightarrow> CerrLog \<times> event list" where
  "CerrLog_put c t =
     (if severity_m c \<noteq> ARROW_DEBUG
      then (c\<lparr>has_logged_m := True\<rparr>, ostream_put StdCerr t)
      else (c, []))"

definition PrintBackTrace :: "build \<Rightarrow> event list" where
  "PrintBackTrace b =
     (if execinfo_h b \<or> \<not> win32 b then [BacktraceDump 1] else [])"

text \<open>The destructor. \<^verbatim>\<open>std::endl\<close> writes a newline and flushes.\<close>

definition endl :: "nat \<Rightarrow> event list" where
  "endl fd = [Write fd [CHR 0x0A], Flush fd]"

definition CerrLog_delete :: "build \<Rightarrow> CerrLog \<Rightarrow> unit comp" where
  "CerrLog_delete b c =
     bind (emit (if has_logged_m c then endl STDERR_FILENO else []))
       (\<lambda>_. if severity_m c = ARROW_FATAL
            then (PrintBackTrace b @ [Abort], Terminated)
            else ret ())"

subsection \<open>The delegated sink: google::LogMessage\<close>

record LogMessage =
  lm_file :: string
  lm_line :: int
  lm_severity :: int

text \<open>
  Modelled from the spec: glog is not part of the repository. The spec leaves destruction
  and termination on FATAL to "the external subsystem's own record-destruction
  behavior": deleting a message of glog's fatal severity ends the process.
\<close>

definition LogMessage_delete :: "LogMessage \<Rightarrow> unit comp" where
  "LogMessage_delete m =
     (if lm_severity m = GLOG_FATAL
      then ([LogMessageDelete (lm_severity m), Abort], Terminated)
      else ([LogMessageDelete (lm_severity m)], Done ()))"

subsection \<open>Process-wide state and the log record: class ArrowLog\<close>

text \<open>
  The three static members. \<^verbatim>\<open>app_name_\<close> is a \<^verbatim>\<open>unique_ptr\<close> to a character
  array, null until \<^verbatim>\<open>StartArrowLog\<close> of the glog build sets it.
\<close>

record logging_state =
  severity_threshold_m :: int
  app_name_m :: "string option"
  working_dir_m :: string

definition initial_state :: logging_state where
  "initial_state =
     \<lparr>severity_threshold_m = ARROW_INFO, app_name_m = None, working_dir_m = []\<rparr>"

text \<open>
  \<^verbatim>\<open>logging_provider_\<close> is a \<^verbatim>\<open>void*\<close> that each build reinterprets as its
  own \<^verbatim>\<open>LoggingProvider\<close>; \<open>None\<close> is the null pointer.
\<close>

datatype provider = CerrProvider CerrLog | GlogProvider LogMessage

record ArrowLog =
  is_enabled_m :: bool
  logging_provider_m :: "provider option"

text \<open>A \<^verbatim>\<open>std::string\<close> read as a C string stops at its first NUL.\<close>

definition c_str :: "string \<Rightarrow> string" where
  "c_str s = takeWhile (\<lambda>c. c \<noteq> CHR 0x00) s"

fun CerrLog_puts :: "CerrLog \<Rightarrow> item list \<Rightarrow> CerrLog \<times> event list" where
  "CerrLog_puts c [] = (c, [])"
| "CerrLog_puts c (t # ts) =
     (case CerrLog_put c t of
        (c', es) \<Rightarrow> (case CerrLog_puts c' ts of (c'', es') \<Rightarrow> (c'', es @ es')))"

definition IsEnabled :: "ArrowLog \<Rightarrow> bool" where
  "IsEnabled r = is_enabled_m r"

definition ArrowLog_Stream :: "build \<Rightarrow> ArrowLog \<Rightarrow> (ArrowLog \<times> ostream) comp" where
  "ArrowLog_Stream b r =
     (if use_glog b then
        (case logging_provider_m r of
           None \<Rightarrow> ([], NullDereference)
         | Some (GlogProvider m) \<Rightarrow> ret (r, LogMessageStream)
         | Some (CerrProvider c) \<Rightarrow> ([], BadCast))
      else
        (case logging_provider_m r of
           None \<Rightarrow> ([], NullDereference)
         | Some (CerrProvider c) \<Rightarrow>
             (case CerrLog_Stream c of
                (c', os) \<Rightarrow> ret (r\<lparr>logging_provider_m := Some (CerrProvider c')\<rparr>, os))
         | Some (GlogProvider m) \<Rightarrow> ([], BadCast)))"

definition ArrowLog_delete :: "build \<Rightarrow> ArrowLog \<Rightarrow> unit comp" where
  "ArrowLog_delete b r =
     (case logging_provider_m r of
        None \<Rightarrow> ret ()
      | Some p \<Rightarrow>
          (if use_glog b then
             (case p of GlogProvider m \<Rightarrow> LogMessage_delete m | CerrProvider c \<Rightarrow> ([], BadCast))
           else
             (case p of CerrProvider c \<Rightarrow> CerrLog_delete b c | GlogProvider m \<Rightarrow> ([], BadCast))))"

text \<open>A caller's \<^verbatim>\<open>Stream() << t\<close>: take the stream of the record and put a value on it.\<close>

definition ArrowLog_write :: "build \<Rightarrow> ArrowLog \<Rightarrow> item \<Rightarrow> ArrowLog comp" where
  "ArrowLog_write b r t =
     bind (ArrowLog_Stream b r) (\<lambda>(r', os). (ostream_put os t, Done r'))"

fun ArrowLog_writes :: "build \<Rightarrow> ArrowLog \<Rightarrow> item list \<Rightarrow> ArrowLog comp" where
  "ArrowLog_writes b r [] = ret r"
| "ArrowLog_writes b r (t # ts) =
     bind (ArrowLog_write b r t) (\<lambda>r'. ArrowLog_writes b r' ts)"

text \<open>
  Modelled from the spec: the streaming operator of a log record and the macro
  \<^verbatim>\<open>ARROW_LOG(level) << ...\<close> are declared in arrow/util/logging.h, which is not
  among the sources. The spec: a disabled record accepts appends as no-ops; on an
  enabled record the direct console sink renders the value unless the severity is
  DEBUG, and the delegated sink forwards it to the stream of the external subsystem;
  the macro is the construct-stream-destroy idiom. The source uses the macro once, in
  the \<^verbatim>\<open>default\<close> case of \<^verbatim>\<open>GetMappedSeverity\<close>.
\<close>

definition ArrowLog_append :: "build \<Rightarrow> ArrowLog \<Rightarrow> item \<Rightarrow> ArrowLog comp" where
  "ArrowLog_append b r t =
     (if \<not> IsEnabled r then ret r
      else (case logging_provider_m r of
              Some (CerrProvider c) \<Rightarrow>
                (case CerrLog_put c t of
                   (c', es) \<Rightarrow> (es, Done (r\<lparr>logging_provider_m := Some (CerrProvider c')\<rparr>)))
            | _ \<Rightarrow> ArrowLog_write b r t))"

fun ArrowLog_appends :: "build \<Rightarrow> ArrowLog \<Rightarrow> item list \<Rightarrow> ArrowLog comp" where
  "ArrowLog_appends b r [] = ret r"
| "ArrowLog_appends b r (t # ts) =
     bind (ArrowLog_append b r t) (\<lambda>r'. ArrowLog_appends b r' ts)"

text \<open>
  The constructor and the severity mapping call each other: the \<^verbatim>\<open>default\<close>
  case of the mapping logs at FATAL, and the constructor of the glog build maps the
  severity of an enabled record. The recursion ends because FATAL is a severity the
  mapping knows. \<^verbatim>\<open>GetMappedSeverity\<close> exists in the glog build only.
\<close>

definition known_severity :: "int \<Rightarrow> bool" where
  "known_severity s \<longleftrightarrow>
     s = ARROW_DEBUG \<or> s = ARROW_INFO \<or> s = ARROW_WARNING \<or> s = ARROW_ERROR \<or> s = ARROW_FATAL"

function GetMappedSeverity :: "build \<Rightarrow> logging_state \<Rightarrow> int \<Rightarrow> int comp"
  and ArrowLog_new :: "build \<Rightarrow> logging_state \<Rightarrow> string \<Rightarrow> int \<Rightarrow> int \<Rightarrow> ArrowLog comp"
  and ARROW_LOG :: "build \<Rightarrow> logging_state \<Rightarrow> string \<Rightarrow> int \<Rightarrow> int \<Rightarrow> item list \<Rightarrow> unit comp"
where
  "GetMappedSeverity b st severity =
     (if severity = ARROW_DEBUG then ret GLOG_INFO
      else if severity = ARROW_INFO then ret GLOG_INFO
      else if severity = ARROW_WARNING then ret GLOG_WARNING
      else if severity = ARROW_ERROR then ret GLOG_ERROR
      else if severity = ARROW_FATAL then ret GLOG_FATAL
      else bind (ARROW_LOG b st (this_file b) 97 ARROW_FATAL
                   [Str ''Unsupported logging level: '', Num severity])
             (\<lambda>_. ret GLOG_FATAL))"
| "ArrowLog_new b st file_name line_number severity =
     (let is_enabled = (severity \<ge> severity_threshold_m st) in
      if use_glog b then
        (if is_enabled then
           bind (GetMappedSeverity b st severity)
             (\<lambda>mapped.
                ([LogMessageNew file_name line_number mapped,
                  LogMessageWrite (Some ''(''),
                  LogMessageWrite (app_name_m st),
                  LogMessageWrite (Some ''): '')],
                 Done \<lparr>is_enabled_m = is_enabled,
                       logging_provider_m = Some (GlogProvider
                         \<lparr>lm_file = file_name, lm_line = line_number, lm_severity = mapped\<rparr>)\<rparr>))
         else ret \<lparr>is_enabled_m = is_enabled, logging_provider_m = None\<rparr>)
      else
        (case CerrLog_puts (CerrLog_new severity)
                [Str file_name, Str '':'', Num line_number, Str '': '']
         of (c, es) \<Rightarrow>
           (es, Done \<lparr>is_enabled_m = is_enabled,
                      logging_provider_m = Some (CerrProvider c)\<rparr>)))"
| "ARROW_LOG b st file_name line_number severity ts =
     bind (ArrowLog_new b st file_name line_number severity)
       (\<lambda>r. bind (ArrowLog_appends b r ts) (\<lambda>r'. ArrowLog_delete b r'))"
  by pat_completeness auto
termination
  by (relation "measure (\<lambda>x. case x of
         Inl (b, st, s) \<Rightarrow> (if known_severity s then 0 else 3)
       | Inr (Inl (b, st, f, l, s)) \<Rightarrow> (if known_severity s then 1 else 4)
       | Inr (Inr (b, st, f, l, s, ts)) \<Rightarrow> (if known_severity s then 2 else 5))")
     (auto simp: known_severity_def)

declare GetMappedSeverity.simps [simp del] ArrowLog_new.simps [simp del] ARROW_LOG.simps [simp del]

subsection \<open>Startup and shutdown\<close>

text \<open>\<^verbatim>\<open>std::string::rfind(ch)\<close>: the last position of a character, \<open>None\<close> for \<^verbatim>\<open>npos\<close>.\<close>

fun rfind :: "string \<Rightarrow> char \<Rightarrow> nat option" where
  "rfind [] ch = None"
| "rfind (x # xs) ch =
     (case rfind xs ch of
        Some pos \<Rightarrow> Some (Suc pos)
      | None \<Rightarrow> (if x = ch then Some 0 else None))"

text \<open>The two locals of the file-logging block, for a non-empty \<^verbatim>\<open>log_dir\<close>.\<close>

definition dir_ends_with_slash :: "string \<Rightarrow> string" where
  "dir_ends_with_slash log_dir =
     (if log_dir ! (length log_dir - 1) \<noteq> CHR ''/'' then log_dir @ ''/'' else log_dir)"

definition app_name_without_path :: "string \<Rightarrow> string" where
  "app_name_without_path app_name =
     (if app_name = [] then ''DefaultApp''
      else (case rfind app_name CHR ''/'' of
              Some pos \<Rightarrow>
                (if pos + 1 < length app_name then drop (pos + 1) app_name else app_name)
            | None \<Rightarrow> app_name))"

text \<open>
  \<^verbatim>\<open>StartArrowLog\<close>. The argument \<open>cwd\<close> is what \<^verbatim>\<open>getcwd\<close> answers: the
  working directory, or \<open>None\<close> for a null result. The local
  \<^verbatim>\<open>dir_ends_with_slash\<close> is computed and not used afterwards: the destination
  handed to glog is \<^verbatim>\<open>log_dir.c_str()\<close>. \<^verbatim>\<open>printf\<close> writes to standard output.
\<close>

definition StartArrowLog ::
  "build \<Rightarrow> string option \<Rightarrow> logging_state \<Rightarrow> string \<Rightarrow> int \<Rightarrow> string \<Rightarrow> logging_state comp"
where
  "StartArrowLog b cwd st app_name severity_threshold log_dir =
     bind
       (if use_glog b then
          (let st1 = st\<lparr>severity_threshold_m := severity_threshold,
                        app_name_m := Some (c_str app_name)\<rparr>
           in bind (GetMappedSeverity b st1 (severity_threshold_m st1))
                (\<lambda>mapped_severity_threshold.
                   bind (emit [InitGoogleLogging (c_str app_name),
                               SetStderrLogging mapped_severity_threshold])
                     (\<lambda>_. bind
                        (if log_dir \<noteq> [] then
                           (let d = dir_ends_with_slash log_dir;
                                a = app_name_without_path app_name
                            in emit [SetLogFilenameExtension (c_str a),
                                     SetLogDestination mapped_severity_threshold (c_str log_dir)])
                         else ret ())
                        (\<lambda>_. ret st1))))
        else ret st)
       (\<lambda>st2. case cwd of
                 Some dir \<Rightarrow>
                   ([Write STDOUT_FILENO (''Current working dir: '' @ dir @ [CHR 0x0A])],
                    Done (st2\<lparr>working_dir_m := dir\<rparr>))
               | None \<Rightarrow> ret st2)"

definition ShutDownArrowLog :: "build \<Rightarrow> unit comp" where
  "ShutDownArrowLog b = (if use_glog b then emit [ShutdownGoogleLogging] else ret ())"

definition InstallFailureSignalHandler :: "build \<Rightarrow> unit comp" where
  "InstallFailureSignalHandler b =
     (if use_glog b then emit [GlogInstallFailureSignalHandler] else ret ())"


subsection \<open>One record from construction to destruction\<close>

text \<open>
  A record is constructed, the caller puts values on its stream, and the record is
  destroyed at the end of the statement.
\<close>

definition lifecycle ::
  "build \<Rightarrow> logging_state \<Rightarrow> string \<Rightarrow> int \<Rightarrow> int \<Rightarrow> item list \<Rightarrow> unit comp"
where
  "lifecycle b st file_name line_number severity ts =
     bind (ArrowLog_new b st file_name line_number severity)
       (\<lambda>r. bind (ArrowLog_writes b r ts) (\<lambda>r'. ArrowLog_delete b r'))"

text \<open>The builds used in examples: the console build and the glog build, on a Unix.\<close>

definition console_build :: build where
  "console_build =
     \<lparr>use_glog = False, win32 = False, execinfo_h = True, this_file = ''logging.cc''\<rparr>"

definition glog_build :: build where
  "glog_build =
     \<lparr>use_glog = True, win32 = False, execinfo_h = True, this_file = ''logging.cc''\<rparr>"

section \<open>Properties\<close>

subsection \<open>Sequencing, traces and the console sink\<close>

lemmas severity_defs =
  ARROW_DEBUG_def ARROW_INFO_def ARROW_WARNING_def ARROW_ERROR_def ARROW_FATAL_def

lemmas glog_defs = GLOG_INFO_def GLOG_WARNING_def GLOG_ERROR_def GLOG_FATAL_def

lemma severity_order:
  "ARROW_DEBUG < ARROW_INFO \<and> ARROW_INFO < ARROW_WARNING \<and>
   ARROW_WARNING < ARROW_ERROR \<and> ARROW_ERROR < ARROW_FATAL"
  by (simp add: severity_defs)

lemma digits_check: "digits 10 = ''10'' \<and> digits 97 = ''97'' \<and> digits 0 = ''0''"
  by code_simp

lemma render_check: "render (Num (- 12)) = ''-12'' \<and> render (Num 10) = ''10''"
  by code_simp

lemma bind_ret [simp]: "bind (ret x) f = f x"
  by (simp add: bind_def ret_def)

lemma bind_Done [simp]: "bind (es, Done x) f = (es @ fst (f x), snd (f x))"
  by (simp add: bind_def)

lemma written_append [simp]: "written fd (es @ es') = written fd es @ written fd es'"
  by (induction fd es rule: written.induct) simp_all

lemma CerrLog_put_severity [simp]: "severity_m (fst (CerrLog_put c t)) = severity_m c"
  by (simp add: CerrLog_put_def)

lemma CerrLog_put_events:
  "snd (CerrLog_put c t) = (if severity_m c \<noteq> ARROW_DEBUG then [Write STDERR_FILENO (render t)] else [])"
  by (simp add: CerrLog_put_def ostream_put_def)

lemma CerrLog_put_has_logged:
  "has_logged_m (fst (CerrLog_put c t)) \<longleftrightarrow> has_logged_m c \<or> severity_m c \<noteq> ARROW_DEBUG"
  by (simp add: CerrLog_put_def)

lemma CerrLog_puts_severity [simp]: "severity_m (fst (CerrLog_puts c ts)) = severity_m c"
proof (induction ts arbitrary: c)
  case Nil
  show ?case by simp
next
  case (Cons t ts)
  have "severity_m (fst (CerrLog_puts (fst (CerrLog_put c t)) ts)) = severity_m c"
    using Cons.IH [of "fst (CerrLog_put c t)"] by simp
  then show ?case by (simp add: split_beta)
qed

lemma CerrLog_puts_events:
  "snd (CerrLog_puts c ts) =
     (if severity_m c \<noteq> ARROW_DEBUG then map (\<lambda>t. Write STDERR_FILENO (render t)) ts else [])"
proof (induction ts arbitrary: c)
  case Nil
  show ?case by simp
next
  case (Cons t ts)
  show ?case
    using Cons.IH [of "fst (CerrLog_put c t)"]
    by (simp add: split_beta CerrLog_put_events)
qed

lemma CerrLog_puts_has_logged:
  "has_logged_m (fst (CerrLog_puts c ts)) \<longleftrightarrow>
     has_logged_m c \<or> (ts \<noteq> [] \<and> severity_m c \<noteq> ARROW_DEBUG)"
proof (induction ts arbitrary: c)
  case Nil
  show ?case by simp
next
  case (Cons t ts)
  show ?case
    using Cons.IH [of "fst (CerrLog_put c t)"]
    by (auto simp add: split_beta CerrLog_put_has_logged)
qed

subsection \<open>The record of the console build\<close>

lemma ArrowLog_new_console:
  "\<not> use_glog b \<Longrightarrow>
   ArrowLog_new b st f l s =
     (snd (CerrLog_puts (CerrLog_new s) [Str f, Str '':'', Num l, Str '': '']),
      Done \<lparr>is_enabled_m = (severity_threshold_m st \<le> s),
            logging_provider_m =
              Some (CerrProvider (fst (CerrLog_puts (CerrLog_new s) [Str f, Str '':'', Num l, Str '': ''])))\<rparr>)"
  by (simp add: ArrowLog_new.simps Let_def split_beta)

lemma ArrowLog_write_console:
  "\<not> use_glog b \<Longrightarrow> logging_provider_m r = Some (CerrProvider c) \<Longrightarrow>
   ArrowLog_write b r t =
     ([Write STDERR_FILENO (render t)],
      Done (r\<lparr>logging_provider_m := Some (CerrProvider (c\<lparr>has_logged_m := True\<rparr>))\<rparr>))"
  by (simp add: ArrowLog_write_def ArrowLog_Stream_def CerrLog_Stream_def ostream_put_def)

lemma ArrowLog_writes_console:
  "\<not> use_glog b \<Longrightarrow> logging_provider_m r = Some (CerrProvider c) \<Longrightarrow>
   ArrowLog_writes b r ts =
     (map (\<lambda>t. Write STDERR_FILENO (render t)) ts,
      Done (if ts = [] then r
            else r\<lparr>logging_provider_m := Some (CerrProvider (c\<lparr>has_logged_m := True\<rparr>))\<rparr>))"
proof (induction ts arbitrary: r c)
  case Nil
  show ?case by (simp add: ret_def)
next
  case (Cons t ts)
  let ?r = "r\<lparr>logging_provider_m := Some (CerrProvider (c\<lparr>has_logged_m := True\<rparr>))\<rparr>"
  have p: "logging_provider_m ?r = Some (CerrProvider (c\<lparr>has_logged_m := True\<rparr>))"
    by simp
  show ?case
    using Cons.IH [OF Cons.prems(1) p] Cons.prems
    by (simp add: ArrowLog_write_console)
qed


lemma written_map_Write [simp]:
  "written fd (map (\<lambda>t. Write fd (g t)) ts) = concat (map g ts)"
  by (induction ts) simp_all

lemma CerrLog_delete_events:
  "fst (CerrLog_delete b c) =
     (if has_logged_m c then endl STDERR_FILENO else []) @
     (if severity_m c = ARROW_FATAL then PrintBackTrace b @ [Abort] else [])"
  by (simp add: CerrLog_delete_def emit_def ret_def)

lemma CerrLog_delete_outcome:
  "snd (CerrLog_delete b c) = (if severity_m c = ARROW_FATAL then Terminated else Done ())"
  by (simp add: CerrLog_delete_def emit_def ret_def)

lemma Abort_notin_PrintBackTrace [simp]: "Abort \<notin> set (PrintBackTrace b)"
  by (simp add: PrintBackTrace_def)

lemma Abort_notin_endl [simp]: "Abort \<notin> set (endl fd)"
  by (simp add: endl_def)

lemma written_PrintBackTrace [simp]: "written fd (PrintBackTrace b) = []"
  by (simp add: PrintBackTrace_def)

lemma written_endl [simp]: "written fd (endl fd) = [CHR 0x0A]"
  by (simp add: endl_def)

lemma ArrowLog_delete_console:
  "\<not> use_glog b \<Longrightarrow> logging_provider_m r = Some (CerrProvider c) \<Longrightarrow>
   ArrowLog_delete b r = CerrLog_delete b c"
  by (simp add: ArrowLog_delete_def)

text \<open>
  The record that construction and streaming reach in the console build: its sink has the
  severity of the record, and has logged as soon as anything reached standard error.
\<close>

lemma console_record:
  assumes b: "\<not> use_glog b"
      and new: "ArrowLog_new b st f l s = (es0, Done r0)"
      and wr: "ArrowLog_writes b r0 ts = (es1, Done r)"
  obtains c where "logging_provider_m r = Some (CerrProvider c)"
      and "severity_m c = s"
      and "has_logged_m c \<longleftrightarrow> s \<noteq> ARROW_DEBUG \<or> ts \<noteq> []"
      and "es0 = (if s \<noteq> ARROW_DEBUG then map (\<lambda>t. Write STDERR_FILENO (render t)) [Str f, Str '':'', Num l, Str '': ''] else [])"
      and "es1 = map (\<lambda>t. Write STDERR_FILENO (render t)) ts"
      and "is_enabled_m r = (severity_threshold_m st \<le> s)"
proof -
  let ?c0 = "fst (CerrLog_puts (CerrLog_new s) [Str f, Str '':'', Num l, Str '': ''])"
  have r0: "r0 = \<lparr>is_enabled_m = (severity_threshold_m st \<le> s),
                  logging_provider_m = Some (CerrProvider ?c0)\<rparr>"
    and es0: "es0 = snd (CerrLog_puts (CerrLog_new s) [Str f, Str '':'', Num l, Str '': ''])"
    using new ArrowLog_new_console [OF b, of st f l s] by simp_all
  have p0: "logging_provider_m r0 = Some (CerrProvider ?c0)"
    using r0 by simp
  have sev0: "severity_m ?c0 = s"
    by (simp add: CerrLog_new_def del: CerrLog_puts.simps)
  have log0: "has_logged_m ?c0 \<longleftrightarrow> s \<noteq> ARROW_DEBUG"
    by (simp add: CerrLog_puts_has_logged CerrLog_new_def del: CerrLog_puts.simps)
  have es0': "es0 = (if s \<noteq> ARROW_DEBUG then map (\<lambda>t. Write STDERR_FILENO (render t)) [Str f, Str '':'', Num l, Str '': ''] else [])"
    using es0 by (simp add: CerrLog_puts_events CerrLog_new_def del: CerrLog_puts.simps)
  have w: "ArrowLog_writes b r0 ts =
     (map (\<lambda>t. Write STDERR_FILENO (render t)) ts,
      Done (if ts = [] then r0
            else r0\<lparr>logging_provider_m := Some (CerrProvider (?c0\<lparr>has_logged_m := True\<rparr>))\<rparr>))"
    by (rule ArrowLog_writes_console [OF b p0])
  have es1: "es1 = map (\<lambda>t. Write STDERR_FILENO (render t)) ts"
    and r: "r = (if ts = [] then r0
            else r0\<lparr>logging_provider_m := Some (CerrProvider (?c0\<lparr>has_logged_m := True\<rparr>))\<rparr>)"
    using w wr by simp_all
  show thesis
  proof (cases "ts = []")
    case True
    show thesis
      by (rule that [of ?c0]) (use True r r0 sev0 log0 es0' es1 in simp_all)
  next
    case False
    show thesis
      by (rule that [of "?c0\<lparr>has_logged_m := True\<rparr>"]) (use False r r0 sev0 log0 es0' es1 in simp_all)
  qed
qed

subsection \<open>The severity mapping\<close>

lemma GetMappedSeverity_known:
  "GetMappedSeverity b st ARROW_DEBUG = ([], Done GLOG_INFO)"
  "GetMappedSeverity b st ARROW_INFO = ([], Done GLOG_INFO)"
  "GetMappedSeverity b st ARROW_WARNING = ([], Done GLOG_WARNING)"
  "GetMappedSeverity b st ARROW_ERROR = ([], Done GLOG_ERROR)"
  "GetMappedSeverity b st ARROW_FATAL = ([], Done GLOG_FATAL)"
  by (simp_all add: GetMappedSeverity.simps ret_def severity_defs)

lemma ArrowLog_new_glog_FATAL:
  "use_glog b \<Longrightarrow>
   ArrowLog_new b st f l ARROW_FATAL =
     (if severity_threshold_m st \<le> ARROW_FATAL then
        ([LogMessageNew f l GLOG_FATAL, LogMessageWrite (Some ''(''),
          LogMessageWrite (app_name_m st), LogMessageWrite (Some ''): '')],
         Done \<lparr>is_enabled_m = True,
               logging_provider_m =
                 Some (GlogProvider \<lparr>lm_file = f, lm_line = l, lm_severity = GLOG_FATAL\<rparr>)\<rparr>)
      else ([], Done \<lparr>is_enabled_m = False, logging_provider_m = None\<rparr>))"
  by (simp add: ArrowLog_new.simps GetMappedSeverity_known ret_def)

lemma ArrowLog_append_glog_enabled:
  "use_glog b \<Longrightarrow>
   ArrowLog_append b \<lparr>is_enabled_m = True, logging_provider_m = Some (GlogProvider m)\<rparr> t =
     ([LogMessageWrite (Some (render t))],
      Done \<lparr>is_enabled_m = True, logging_provider_m = Some (GlogProvider m)\<rparr>)"
  by (simp add: ArrowLog_append_def IsEnabled_def ArrowLog_write_def ArrowLog_Stream_def
        ostream_put_def ret_def)

lemma ArrowLog_append_disabled:
  "ArrowLog_append b \<lparr>is_enabled_m = False, logging_provider_m = p\<rparr> t =
     ([], Done \<lparr>is_enabled_m = False, logging_provider_m = p\<rparr>)"
  by (simp add: ArrowLog_append_def IsEnabled_def ret_def)

lemma ARROW_LOG_glog_FATAL:
  "use_glog b \<Longrightarrow>
   ARROW_LOG b st f l ARROW_FATAL [t, u] =
     (if severity_threshold_m st \<le> ARROW_FATAL then
        ([LogMessageNew f l GLOG_FATAL, LogMessageWrite (Some ''(''),
          LogMessageWrite (app_name_m st), LogMessageWrite (Some ''): ''),
          LogMessageWrite (Some (render t)), LogMessageWrite (Some (render u)),
          LogMessageDelete GLOG_FATAL, Abort],
         Terminated)
      else ([], Done ()))"
  by (simp add: ARROW_LOG.simps ArrowLog_new_glog_FATAL ArrowLog_append_glog_enabled
        ArrowLog_append_disabled ArrowLog_delete_def LogMessage_delete_def ret_def)

lemma GetMappedSeverity_unknown:
  "use_glog b \<Longrightarrow> \<not> known_severity s \<Longrightarrow>
   GetMappedSeverity b st s =
     (if severity_threshold_m st \<le> ARROW_FATAL then
        ([LogMessageNew (this_file b) 97 GLOG_FATAL, LogMessageWrite (Some ''(''),
          LogMessageWrite (app_name_m st), LogMessageWrite (Some ''): ''),
          LogMessageWrite (Some ''Unsupported logging level: ''),
          LogMessageWrite (Some (render (Num s))),
          LogMessageDelete GLOG_FATAL, Abort],
         Terminated)
      else ([], Done GLOG_FATAL))"
  by (simp add: GetMappedSeverity.simps [of b st s] known_severity_def ARROW_LOG_glog_FATAL
        bind_def ret_def render_def)

lemma GetMappedSeverity_Done:
  assumes "use_glog b" and "GetMappedSeverity b st s = (es, Done m)"
  shows "es = []"
proof (cases "known_severity s")
  case True
  then show ?thesis
    using assms(2) by (auto simp add: known_severity_def GetMappedSeverity_known)
next
  case False
  then show ?thesis
    using assms by (simp add: GetMappedSeverity_unknown split: if_splits)
qed


subsection \<open>Construction, the enabled flag and startup\<close>

lemma ArrowLog_new_glog_cases:
  assumes b: "use_glog b" and new: "ArrowLog_new b st f l s = (es, Done r)"
  shows "(severity_threshold_m st \<le> s \<and>
          (\<exists>m. r = \<lparr>is_enabled_m = True,
                     logging_provider_m =
                       Some (GlogProvider \<lparr>lm_file = f, lm_line = l, lm_severity = m\<rparr>)\<rparr>)) \<or>
         (\<not> severity_threshold_m st \<le> s \<and> es = [] \<and>
          r = \<lparr>is_enabled_m = False, logging_provider_m = None\<rparr>)"
  using b new
  by (auto simp add: ArrowLog_new.simps Let_def bind_def ret_def
      split: if_splits outcome.splits)

lemma ArrowLog_new_enabled:
  assumes new: "ArrowLog_new b st f l s = (es, Done r)"
  shows "is_enabled_m r = (severity_threshold_m st \<le> s)"
proof (cases "use_glog b")
  case True
  show ?thesis
    using ArrowLog_new_glog_cases [OF True new] by auto
next
  case False
  show ?thesis
    using new ArrowLog_new_console [OF False, of st f l s] by auto
qed

lemma ArrowLog_Stream_enabled:
  assumes "ArrowLog_Stream b r = (es, Done (r', os))"
  shows "is_enabled_m r' = is_enabled_m r"
  using assms
  by (auto simp add: ArrowLog_Stream_def CerrLog_Stream_def ret_def
      split: if_splits option.splits provider.splits)

lemma ArrowLog_write_enabled:
  assumes "ArrowLog_write b r t = (es, Done r')"
  shows "is_enabled_m r' = is_enabled_m r"
proof -
  obtain es0 out where s: "ArrowLog_Stream b r = (es0, out)"
    by (cases "ArrowLog_Stream b r")
  show ?thesis
  proof (cases out)
    case (Done x)
    obtain r1 os where x: "x = (r1, os)" by (cases x)
    have "r' = r1"
      using assms s Done x by (simp add: ArrowLog_write_def)
    then show ?thesis
      using ArrowLog_Stream_enabled [of b r es0 r1 os] s Done x by simp
  qed (use assms s in \<open>simp_all add: ArrowLog_write_def bind_def\<close>)
qed

lemma ArrowLog_new_returns:
  assumes "\<not> use_glog b \<or> known_severity s \<or> s < severity_threshold_m st \<or>
           ARROW_FATAL < severity_threshold_m st"
  shows "\<exists>es r. ArrowLog_new b st f l s = (es, Done r)"
proof (cases "use_glog b")
  case False
  then show ?thesis by (simp add: ArrowLog_new_console)
next
  case True
  show ?thesis
  proof (cases "known_severity s")
    case k: True
    then show ?thesis
      using True
      by (auto simp add: known_severity_def ArrowLog_new.simps Let_def GetMappedSeverity_known ret_def)
  next
    case k: False
    then show ?thesis
      using True assms
      by (auto simp add: ArrowLog_new.simps Let_def GetMappedSeverity_unknown ret_def)
  qed
qed

lemma lifecycle_console:
  assumes b: "\<not> use_glog b"
  obtains c where "severity_m c = s"
      and "has_logged_m c \<longleftrightarrow> s \<noteq> ARROW_DEBUG \<or> ts \<noteq> []"
      and "lifecycle b st f l s ts =
             ((if s \<noteq> ARROW_DEBUG
               then map (\<lambda>t. Write STDERR_FILENO (render t)) [Str f, Str '':'', Num l, Str '': '']
               else []) @
              map (\<lambda>t. Write STDERR_FILENO (render t)) ts @ fst (CerrLog_delete b c),
              snd (CerrLog_delete b c))"
proof -
  obtain es0 r0 where new: "ArrowLog_new b st f l s = (es0, Done r0)"
    using ArrowLog_new_console [OF b] by blast
  obtain c0 where "logging_provider_m r0 = Some (CerrProvider c0)"
    using new ArrowLog_new_console [OF b, of st f l s] by auto
  then obtain es1 r where wr: "ArrowLog_writes b r0 ts = (es1, Done r)"
    using ArrowLog_writes_console [OF b] by blast
  obtain c where p: "logging_provider_m r = Some (CerrProvider c)"
      and sev: "severity_m c = s"
      and logged: "has_logged_m c \<longleftrightarrow> s \<noteq> ARROW_DEBUG \<or> ts \<noteq> []"
      and es0: "es0 = (if s \<noteq> ARROW_DEBUG then map (\<lambda>t. Write STDERR_FILENO (render t)) [Str f, Str '':'', Num l, Str '': ''] else [])"
      and es1: "es1 = map (\<lambda>t. Write STDERR_FILENO (render t)) ts"
    by (rule console_record [OF b new wr])
  have del: "ArrowLog_delete b r = CerrLog_delete b c"
    by (rule ArrowLog_delete_console [OF b p])
  have "lifecycle b st f l s ts = (es0 @ es1 @ fst (CerrLog_delete b c), snd (CerrLog_delete b c))"
    by (simp add: lifecycle_def new wr del)
  then show thesis
    using that [OF sev logged] es0 es1 by simp
qed

lemma StartArrowLog_console:
  "\<not> use_glog b \<Longrightarrow>
   StartArrowLog b cwd st app_name thr log_dir =
     (case cwd of
        Some dir \<Rightarrow> ([Write STDOUT_FILENO (''Current working dir: '' @ dir @ [CHR 0x0A])],
                     Done (st\<lparr>working_dir_m := dir\<rparr>))
      | None \<Rightarrow> ([], Done st))"
  by (simp add: StartArrowLog_def ret_def split: option.split)

lemma StartArrowLog_glog_mapped:
  assumes b: "use_glog b"
      and g: "GetMappedSeverity b
                (st\<lparr>severity_threshold_m := thr, app_name_m := Some (c_str app_name)\<rparr>) thr =
              ([], Done m)"
  shows "StartArrowLog b cwd st app_name thr log_dir =
     ([InitGoogleLogging (c_str app_name), SetStderrLogging m] @
      (if log_dir \<noteq> []
       then [SetLogFilenameExtension (c_str (app_name_without_path app_name)),
             SetLogDestination m (c_str log_dir)]
       else []) @
      (case cwd of
         Some dir \<Rightarrow> [Write STDOUT_FILENO (''Current working dir: '' @ dir @ [CHR 0x0A])]
       | None \<Rightarrow> []),
      Done (st\<lparr>severity_threshold_m := thr, app_name_m := Some (c_str app_name),
               working_dir_m := (case cwd of Some dir \<Rightarrow> dir | None \<Rightarrow> working_dir_m st)\<rparr>))"
  using b
  by (cases cwd) (simp_all add: StartArrowLog_def Let_def g emit_def ret_def)

lemma StartArrowLog_glog_Done:
  assumes b: "use_glog b"
      and start: "StartArrowLog b cwd st app_name thr log_dir = (es, Done st')"
  obtains m where
    "es = [InitGoogleLogging (c_str app_name), SetStderrLogging m] @
          (if log_dir \<noteq> []
           then [SetLogFilenameExtension (c_str (app_name_without_path app_name)),
                 SetLogDestination m (c_str log_dir)]
           else []) @
          (case cwd of
             Some dir \<Rightarrow> [Write STDOUT_FILENO (''Current working dir: '' @ dir @ [CHR 0x0A])]
           | None \<Rightarrow> [])"
    and "severity_threshold_m st' = thr"
    and "app_name_m st' = Some (c_str app_name)"
proof -
  let ?st1 = "st\<lparr>severity_threshold_m := thr, app_name_m := Some (c_str app_name)\<rparr>"
  obtain es0 out where g: "GetMappedSeverity b ?st1 thr = (es0, out)"
    by (cases "GetMappedSeverity b ?st1 thr")
  show thesis
  proof (cases out)
    case (Done m)
    have es0: "es0 = []"
      using GetMappedSeverity_Done [OF b] g Done by blast
    have g': "GetMappedSeverity b ?st1 thr = ([], Done m)"
      using g Done es0 by simp
    show thesis
      using start StartArrowLog_glog_mapped [OF b g', of cwd log_dir]
      by (intro that [of m]) auto
  qed (use start b g in \<open>simp_all add: StartArrowLog_def Let_def bind_def\<close>)
qed

lemma rfind_None: "rfind xs ch = None \<longleftrightarrow> ch \<notin> set xs"
  by (induction xs) (auto split: option.splits)

lemma rfind_append:
  "rfind (xs @ ys) ch =
     (case rfind ys ch of Some pos \<Rightarrow> Some (length xs + pos) | None \<Rightarrow> rfind xs ch)"
  by (induction xs) (auto split: option.splits)

lemma rfind_last_slash:
  "ch \<notin> set n \<Longrightarrow> rfind (p @ ch # n) ch = Some (length p)"
  using rfind_None [of n ch] by (simp add: rfind_append)

lemma GetMappedSeverity_no_Write:
  assumes b: "use_glog b"
  shows "Write fd x \<notin> set (fst (GetMappedSeverity b st s))"
proof (cases "known_severity s")
  case True
  then show ?thesis
    by (auto simp add: known_severity_def GetMappedSeverity_known)
next
  case False
  then show ?thesis
    by (simp add: GetMappedSeverity_unknown [OF b])
qed

lemma StartArrowLog_Write:
  assumes w: "Write fd x \<in> set (fst (StartArrowLog b cwd st app_name thr log_dir))"
  shows "fd = STDOUT_FILENO"
proof (cases "use_glog b")
  case False
  then show ?thesis
    using w by (auto simp add: StartArrowLog_console split: option.splits)
next
  case True
  let ?st1 = "st\<lparr>severity_threshold_m := thr, app_name_m := Some (c_str app_name)\<rparr>"
  obtain es0 out where g: "GetMappedSeverity b ?st1 thr = (es0, out)"
    by (cases "GetMappedSeverity b ?st1 thr")
  have no: "Write fd x \<notin> set es0"
    using GetMappedSeverity_no_Write [OF True, of fd x ?st1 thr] g by simp
  show ?thesis
  proof (cases out)
    case (Done m)
    have es0: "es0 = []"
      using GetMappedSeverity_Done [OF True] g Done by blast
    have g': "GetMappedSeverity b ?st1 thr = ([], Done m)"
      using g Done es0 by simp
    show ?thesis
      using w StartArrowLog_glog_mapped [OF True g', of cwd log_dir]
      by (auto split: option.splits if_splits)
  qed (use w no True g in \<open>simp_all add: StartArrowLog_def Let_def bind_def\<close>)
qed

lemma ArrowLog_new_FATAL_flag:
  "\<exists>es r. ArrowLog_new b st f l ARROW_FATAL = (es, Done r) \<and>
          (IsEnabled r \<longleftrightarrow> severity_threshold_m st \<le> ARROW_FATAL)"
proof -
  have "known_severity ARROW_FATAL"
    by (simp add: known_severity_def)
  then obtain es r where new: "ArrowLog_new b st f l ARROW_FATAL = (es, Done r)"
    using ArrowLog_new_returns [of b ARROW_FATAL st f l] by blast
  show ?thesis
    using new ArrowLog_new_enabled [OF new] by (auto simp add: IsEnabled_def)
qed

subsection \<open>DEBUG records of the console build\<close>








section \<open>The claims\<close>

text \<open>
  C1. For every record of the direct console sink, on destruction: if any content was
  written to standard error, the destructor writes exactly one line terminator there;
  if the severity is FATAL the destructor ends the process, and the line terminator
  and the backtrace come before the abort, which is the last event: on a platform with
  \<^verbatim>\<open>execinfo.h\<close> (or one that is not Windows) the backtrace is dumped right
  before the abort, and on the others no backtrace is dumped; for every other
  severity the destructor returns and the process survives; and nothing else in the
  console build aborts: not construction, not streaming, not \<^verbatim>\<open>StartArrowLog\<close>,
  \<^verbatim>\<open>ShutDownArrowLog\<close> or \<^verbatim>\<open>InstallFailureSignalHandler\<close>.
\<close>

theorem C1_console_destructor:
  assumes b: "\<not> use_glog b"
      and new: "ArrowLog_new b st f l s = (es0, Done r0)"
      and wr: "ArrowLog_writes b r0 ts = (es1, Done r)"
  shows "(written STDERR_FILENO (es0 @ es1) \<noteq> [] \<longrightarrow>
            written STDERR_FILENO (fst (ArrowLog_delete b r)) = [CHR 0x0A]) \<and>
         (s = ARROW_FATAL \<longrightarrow>
            snd (ArrowLog_delete b r) = Terminated \<and>
            (\<exists>pre. fst (ArrowLog_delete b r) = pre @ PrintBackTrace b @ [Abort] \<and>
                   Abort \<notin> set pre \<and>
                   written STDERR_FILENO pre = written STDERR_FILENO (fst (ArrowLog_delete b r))) \<and>
            (execinfo_h b \<or> \<not> win32 b \<longrightarrow>
               (\<exists>pre. fst (ArrowLog_delete b r) = pre @ [BacktraceDump STDOUT_FILENO, Abort] \<and>
                      Abort \<notin> set pre \<and> (\<forall>fd. BacktraceDump fd \<notin> set pre))) \<and>
            (\<not> execinfo_h b \<and> win32 b \<longrightarrow>
               (\<forall>fd. BacktraceDump fd \<notin> set (fst (ArrowLog_delete b r))))) \<and>
         (s \<noteq> ARROW_FATAL \<longrightarrow>
            snd (ArrowLog_delete b r) = Done () \<and> Abort \<notin> set (fst (ArrowLog_delete b r))) \<and>
         Abort \<notin> set (es0 @ es1) \<and>
         Abort \<notin> set (fst (StartArrowLog b cwd st' app_name threshold log_dir)) \<and>
         Abort \<notin> set (fst (ShutDownArrowLog b)) \<and>
         Abort \<notin> set (fst (InstallFailureSignalHandler b))"
proof -
  obtain c where p: "logging_provider_m r = Some (CerrProvider c)"
      and sev: "severity_m c = s"
      and logged: "has_logged_m c \<longleftrightarrow> s \<noteq> ARROW_DEBUG \<or> ts \<noteq> []"
      and es0: "es0 = (if s \<noteq> ARROW_DEBUG then map (\<lambda>t. Write STDERR_FILENO (render t)) [Str f, Str '':'', Num l, Str '': ''] else [])"
      and es1: "es1 = map (\<lambda>t. Write STDERR_FILENO (render t)) ts"
    by (rule console_record [OF b new wr])
  have del: "ArrowLog_delete b r = CerrLog_delete b c"
    by (rule ArrowLog_delete_console [OF b p])
  have content: "written STDERR_FILENO (es0 @ es1) \<noteq> [] \<Longrightarrow> has_logged_m c"
    using es0 es1 logged by (auto split: if_splits)
  have one: "written STDERR_FILENO (es0 @ es1) \<noteq> [] \<longrightarrow>
            written STDERR_FILENO (fst (ArrowLog_delete b r)) = [CHR 0x0A]"
    using content by (auto simp add: del CerrLog_delete_events)
  have fatal: "s = ARROW_FATAL \<longrightarrow>
            snd (ArrowLog_delete b r) = Terminated \<and>
            (\<exists>pre. fst (ArrowLog_delete b r) = pre @ PrintBackTrace b @ [Abort] \<and>
                   Abort \<notin> set pre \<and>
                   written STDERR_FILENO pre = written STDERR_FILENO (fst (ArrowLog_delete b r))) \<and>
            (execinfo_h b \<or> \<not> win32 b \<longrightarrow>
               (\<exists>pre. fst (ArrowLog_delete b r) = pre @ [BacktraceDump STDOUT_FILENO, Abort] \<and>
                      Abort \<notin> set pre \<and> (\<forall>fd. BacktraceDump fd \<notin> set pre))) \<and>
            (\<not> execinfo_h b \<and> win32 b \<longrightarrow>
               (\<forall>fd. BacktraceDump fd \<notin> set (fst (ArrowLog_delete b r))))"
  proof
    assume s: "s = ARROW_FATAL"
    let ?pre = "if has_logged_m c then endl STDERR_FILENO else []"
    have tr: "fst (ArrowLog_delete b r) = ?pre @ PrintBackTrace b @ [Abort]"
      using s sev by (simp add: del CerrLog_delete_events)
    have na: "Abort \<notin> set ?pre" by simp
    have nb: "\<forall>fd. BacktraceDump fd \<notin> set ?pre"
      by (simp add: endl_def)
    have wr': "written STDERR_FILENO ?pre = written STDERR_FILENO (fst (ArrowLog_delete b r))"
      using s sev by (simp add: del CerrLog_delete_events)
    have out: "snd (ArrowLog_delete b r) = Terminated"
      using s sev by (simp add: del CerrLog_delete_outcome)
    have first: "\<exists>pre. fst (ArrowLog_delete b r) = pre @ PrintBackTrace b @ [Abort] \<and>
                   Abort \<notin> set pre \<and>
                   written STDERR_FILENO pre = written STDERR_FILENO (fst (ArrowLog_delete b r))"
      using tr na wr' by blast
    have dump: "execinfo_h b \<or> \<not> win32 b \<longrightarrow>
               (\<exists>pre. fst (ArrowLog_delete b r) = pre @ [BacktraceDump STDOUT_FILENO, Abort] \<and>
                      Abort \<notin> set pre \<and> (\<forall>fd. BacktraceDump fd \<notin> set pre))"
    proof
      assume "execinfo_h b \<or> \<not> win32 b"
      then have "PrintBackTrace b = [BacktraceDump STDOUT_FILENO]"
        by (simp add: PrintBackTrace_def STDOUT_FILENO_def)
      then have "fst (ArrowLog_delete b r) = ?pre @ [BacktraceDump STDOUT_FILENO, Abort]"
        using tr by simp
      then show "\<exists>pre. fst (ArrowLog_delete b r) = pre @ [BacktraceDump STDOUT_FILENO, Abort] \<and>
                      Abort \<notin> set pre \<and> (\<forall>fd. BacktraceDump fd \<notin> set pre)"
        using na nb by blast
    qed
    have nodump: "\<not> execinfo_h b \<and> win32 b \<longrightarrow>
               (\<forall>fd. BacktraceDump fd \<notin> set (fst (ArrowLog_delete b r)))"
    proof
      assume "\<not> execinfo_h b \<and> win32 b"
      then have "PrintBackTrace b = []"
        by (simp add: PrintBackTrace_def)
      then show "\<forall>fd. BacktraceDump fd \<notin> set (fst (ArrowLog_delete b r))"
        using tr nb by simp
    qed
    show "snd (ArrowLog_delete b r) = Terminated \<and>
            (\<exists>pre. fst (ArrowLog_delete b r) = pre @ PrintBackTrace b @ [Abort] \<and>
                   Abort \<notin> set pre \<and>
                   written STDERR_FILENO pre = written STDERR_FILENO (fst (ArrowLog_delete b r))) \<and>
            (execinfo_h b \<or> \<not> win32 b \<longrightarrow>
               (\<exists>pre. fst (ArrowLog_delete b r) = pre @ [BacktraceDump STDOUT_FILENO, Abort] \<and>
                      Abort \<notin> set pre \<and> (\<forall>fd. BacktraceDump fd \<notin> set pre))) \<and>
            (\<not> execinfo_h b \<and> win32 b \<longrightarrow>
               (\<forall>fd. BacktraceDump fd \<notin> set (fst (ArrowLog_delete b r))))"
      using out first dump nodump by blast
  qed
  have survive: "s \<noteq> ARROW_FATAL \<longrightarrow>
            snd (ArrowLog_delete b r) = Done () \<and> Abort \<notin> set (fst (ArrowLog_delete b r))"
    using sev by (simp add: del CerrLog_delete_events CerrLog_delete_outcome)
  have quiet: "Abort \<notin> set (es0 @ es1)"
    using es0 es1 by auto
  have start: "Abort \<notin> set (fst (StartArrowLog b cwd st' app_name threshold log_dir))"
    using b by (simp add: StartArrowLog_def ret_def split: option.split)
  have stop: "Abort \<notin> set (fst (ShutDownArrowLog b))"
    using b by (simp add: ShutDownArrowLog_def ret_def)
  have inst: "Abort \<notin> set (fst (InstallFailureSignalHandler b))"
    using b by (simp add: InstallFailureSignalHandler_def ret_def)
  show ?thesis
    using one fatal survive quiet start stop inst by blast
qed


theorem C1_console_destructor_witness:
  "\<not> use_glog console_build \<and>
   ArrowLog_new console_build initial_state ''file.cc'' 10 ARROW_FATAL =
     ([Write 2 ''file.cc'', Write 2 '':'', Write 2 ''10'', Write 2 '': ''],
      Done \<lparr>is_enabled_m = True,
            logging_provider_m = Some (CerrProvider \<lparr>severity_m = 3, has_logged_m = True\<rparr>)\<rparr>) \<and>
   ArrowLog_writes console_build
       \<lparr>is_enabled_m = True,
        logging_provider_m = Some (CerrProvider \<lparr>severity_m = 3, has_logged_m = True\<rparr>)\<rparr>
       [Str ''hello''] =
     ([Write 2 ''hello''],
      Done \<lparr>is_enabled_m = True,
            logging_provider_m = Some (CerrProvider \<lparr>severity_m = 3, has_logged_m = True\<rparr>)\<rparr>) \<and>
   written STDERR_FILENO (fst (ArrowLog_delete console_build
       \<lparr>is_enabled_m = True,
        logging_provider_m = Some (CerrProvider \<lparr>severity_m = 3, has_logged_m = True\<rparr>)\<rparr>)) =
     [CHR 0x0A] \<and>
   snd (ArrowLog_delete console_build
       \<lparr>is_enabled_m = True,
        logging_provider_m = Some (CerrProvider \<lparr>severity_m = 3, has_logged_m = True\<rparr>)\<rparr>) =
     Terminated \<and>
   (\<exists>pre. fst (ArrowLog_delete console_build
       \<lparr>is_enabled_m = True,
        logging_provider_m = Some (CerrProvider \<lparr>severity_m = 3, has_logged_m = True\<rparr>)\<rparr>) =
       pre @ [BacktraceDump STDOUT_FILENO, Abort] \<and>
       Abort \<notin> set pre \<and> (\<forall>fd. BacktraceDump fd \<notin> set pre)) \<and>
   fst (ArrowLog_delete console_build
       \<lparr>is_enabled_m = True,
        logging_provider_m = Some (CerrProvider \<lparr>severity_m = 3, has_logged_m = True\<rparr>)\<rparr>) =
     [Write 2 [CHR 0x0A], Flush 2, BacktraceDump 1, Abort]"
proof -
  let ?r = "\<lparr>is_enabled_m = True,
             logging_provider_m = Some (CerrProvider \<lparr>severity_m = 3, has_logged_m = True\<rparr>)\<rparr>"
  have h1: "\<not> use_glog console_build"
    by (simp add: console_build_def)
  have h2: "ArrowLog_new console_build initial_state ''file.cc'' 10 ARROW_FATAL =
     ([Write 2 ''file.cc'', Write 2 '':'', Write 2 ''10'', Write 2 '': ''], Done ?r)"
    by code_simp
  have h3: "ArrowLog_writes console_build ?r [Str ''hello''] = ([Write 2 ''hello''], Done ?r)"
    by code_simp
  have content: "written STDERR_FILENO
      ([Write 2 ''file.cc'', Write 2 '':'', Write 2 ''10'', Write 2 '': ''] @ [Write 2 ''hello'']) \<noteq> []"
    by (simp add: STDERR_FILENO_def)
  have platform: "execinfo_h console_build \<or> \<not> win32 console_build"
    by (simp add: console_build_def)
  have trace: "fst (ArrowLog_delete console_build ?r) =
     [Write 2 [CHR 0x0A], Flush 2, BacktraceDump 1, Abort]"
    by code_simp
  show ?thesis
    using C1_console_destructor [OF h1 h2 h3] h1 h2 h3 content platform trace by blast
qed

text \<open>
  C2. The code at a threshold above FATAL, which the startup operation of the glog
  build accepts and stores: a record constructed at FATAL severity afterwards has its
  enabled flag false, and no message is created for it.
\<close>

theorem C2_fatal_disabled_above_threshold:
  "StartArrowLog glog_build None initial_state ''app'' (ARROW_FATAL + 1) [] =
     ([InitGoogleLogging ''app'', SetStderrLogging GLOG_FATAL],
      Done \<lparr>severity_threshold_m = ARROW_FATAL + 1, app_name_m = Some ''app'',
            working_dir_m = []\<rparr>) \<and>
   ArrowLog_new glog_build
       \<lparr>severity_threshold_m = ARROW_FATAL + 1, app_name_m = Some ''app'', working_dir_m = []\<rparr>
       ''file.cc'' 10 ARROW_FATAL =
     ([], Done \<lparr>is_enabled_m = False, logging_provider_m = None\<rparr>) \<and>
   \<not> IsEnabled \<lparr>is_enabled_m = False, logging_provider_m = None\<rparr>"
  by code_simp

text \<open>
  C3. A record constructed with severity \<open>s\<close> while the threshold is \<open>T\<close> answers
  \<open>s \<ge> T\<close> to \<^verbatim>\<open>IsEnabled\<close>; taking its stream and writing to it leave the
  flag as it is. \<open>IsEnabled\<close> is a function of the record alone: it performs no
  event and returns no new record or state, and the record does not change when the
  threshold does.
\<close>

theorem C3_enabled_flag:
  assumes new: "ArrowLog_new b st f l s = (es, Done r)"
  shows "IsEnabled r = (s \<ge> severity_threshold_m st) \<and>
         (\<forall>es' r' os. ArrowLog_Stream b r = (es', Done (r', os)) \<longrightarrow> IsEnabled r' = IsEnabled r) \<and>
         (\<forall>t es' r'. ArrowLog_write b r t = (es', Done r') \<longrightarrow> IsEnabled r' = IsEnabled r)"
  using ArrowLog_new_enabled [OF new] ArrowLog_Stream_enabled ArrowLog_write_enabled
  unfolding IsEnabled_def by blast

theorem C3_enabled_flag_witness:
  "ArrowLog_new console_build initial_state ''file.cc'' 10 ARROW_DEBUG =
     ([], Done \<lparr>is_enabled_m = False,
               logging_provider_m = Some (CerrProvider \<lparr>severity_m = - 1, has_logged_m = False\<rparr>)\<rparr>) \<and>
   IsEnabled \<lparr>is_enabled_m = False,
             logging_provider_m = Some (CerrProvider \<lparr>severity_m = - 1, has_logged_m = False\<rparr>)\<rparr> =
     (ARROW_DEBUG \<ge> severity_threshold_m initial_state)"
proof -
  have h: "ArrowLog_new console_build initial_state ''file.cc'' 10 ARROW_DEBUG =
     ([], Done \<lparr>is_enabled_m = False,
               logging_provider_m = Some (CerrProvider \<lparr>severity_m = - 1, has_logged_m = False\<rparr>)\<rparr>)"
    by code_simp
  show ?thesis
    using C3_enabled_flag [OF h] h by blast
qed

text \<open>
  C4. The code at the claim's input: in the console build with threshold WARNING, a
  record at INFO is disabled, and constructing and destroying it still puts the prefix
  and a line terminator on standard error, also when \<open>hello\<close> is appended through the
  macro (a no-op on a disabled record). The record at WARNING with \<open>hello\<close> streamed
  gives the line the claim states. From the initial state, threshold INFO, a record
  with a severity below DEBUG is disabled and prints its prefix all the same.
\<close>

theorem C4_disabled_record_prints:
  "lifecycle console_build (initial_state\<lparr>severity_threshold_m := ARROW_WARNING\<rparr>)
       ''file.cc'' 10 ARROW_INFO [] =
     ([Write 2 ''file.cc'', Write 2 '':'', Write 2 ''10'', Write 2 '': '',
       Write 2 [CHR 0x0A], Flush 2], Done ()) \<and>
   ARROW_LOG console_build (initial_state\<lparr>severity_threshold_m := ARROW_WARNING\<rparr>)
       ''file.cc'' 10 ARROW_INFO [Str ''hello''] =
     ([Write 2 ''file.cc'', Write 2 '':'', Write 2 ''10'', Write 2 '': '',
       Write 2 [CHR 0x0A], Flush 2], Done ()) \<and>
   written STDERR_FILENO
     (fst (lifecycle console_build (initial_state\<lparr>severity_threshold_m := ARROW_WARNING\<rparr>)
        ''file.cc'' 10 ARROW_INFO [])) = ''file.cc:10: '' @ [CHR 0x0A] \<and>
   written STDERR_FILENO
     (fst (lifecycle console_build (initial_state\<lparr>severity_threshold_m := ARROW_WARNING\<rparr>)
        ''file.cc'' 10 ARROW_WARNING [Str ''hello''])) = ''file.cc:10: hello'' @ [CHR 0x0A] \<and>
   written STDERR_FILENO
     (fst (ARROW_LOG console_build (initial_state\<lparr>severity_threshold_m := ARROW_WARNING\<rparr>)
        ''file.cc'' 10 ARROW_WARNING [Str ''hello''])) = ''file.cc:10: hello'' @ [CHR 0x0A] \<and>
   written STDERR_FILENO
     (fst (lifecycle console_build initial_state ''file.cc'' 10 (ARROW_DEBUG - 1) [])) =
     ''file.cc:10: '' @ [CHR 0x0A]"
  by code_simp

text \<open>
  C5. The code at a console-build call of the startup operation: after
  \<^verbatim>\<open>StartArrowLog("myapp", ARROW_WARNING, "")\<close> from the initial state the
  threshold is still INFO, not the argument.
\<close>

theorem C5_console_start_keeps_threshold:
  "StartArrowLog console_build (Some ''/home'') initial_state ''myapp'' ARROW_WARNING [] =
     ([Write 1 (''Current working dir: /home'' @ [CHR 0x0A])],
      Done \<lparr>severity_threshold_m = ARROW_INFO, app_name_m = None, working_dir_m = ''/home''\<rparr>) \<and>
   ARROW_INFO \<noteq> ARROW_WARNING"
  by code_simp



text \<open>
  C7. The code on a severity the mapping does not know, while the threshold is above
  FATAL: the record that the \<^verbatim>\<open>default\<close> case logs at FATAL is disabled, nothing is
  logged, nothing aborts, and the mapping returns glog's fatal severity. The startup
  operation called with such a threshold reaches this case and goes on.
\<close>

theorem C7_mapping_returns_above_fatal:
  "GetMappedSeverity glog_build
       \<lparr>severity_threshold_m = ARROW_FATAL + 1, app_name_m = Some ''app'', working_dir_m = []\<rparr>
       (ARROW_FATAL + 1) = ([], Done GLOG_FATAL) \<and>
   StartArrowLog glog_build None initial_state ''app'' (ARROW_FATAL + 1) [] =
     ([InitGoogleLogging ''app'', SetStderrLogging GLOG_FATAL],
      Done \<lparr>severity_threshold_m = ARROW_FATAL + 1, app_name_m = Some ''app'', working_dir_m = []\<rparr>)"
  by code_simp

text \<open>
  C8, as amended. When the startup operation of the glog build returns: the log-file
  tag and the log destination are set exactly when \<^verbatim>\<open>log_dir\<close> is not empty; the
  tag is \<open>DefaultApp\<close> for an empty application name, the text after the last slash
  for a name with a slash that does not end in one, and the name itself when it has no
  slash or ends in a slash (each read as a C string).
\<close>

theorem C8_log_file_tag:
  assumes b: "use_glog b"
      and start: "StartArrowLog b cwd st app_name thr log_dir = (es, Done st')"
  shows "((\<exists>tag. SetLogFilenameExtension tag \<in> set es) \<longleftrightarrow> log_dir \<noteq> []) \<and>
         ((\<exists>m d. SetLogDestination m d \<in> set es) \<longleftrightarrow> log_dir \<noteq> []) \<and>
         (\<forall>tag. SetLogFilenameExtension tag \<in> set es \<longrightarrow>
            (app_name = [] \<longrightarrow> tag = ''DefaultApp'') \<and>
            (\<forall>p n. app_name = p @ ''/'' @ n \<and> n \<noteq> [] \<and> CHR ''/'' \<notin> set n \<longrightarrow> tag = c_str n) \<and>
            (app_name \<noteq> [] \<and> CHR ''/'' \<notin> set app_name \<longrightarrow> tag = c_str app_name) \<and>
            (\<forall>p. app_name = p @ ''/'' \<longrightarrow> tag = c_str app_name))"
proof -
  obtain m where es: "es = [InitGoogleLogging (c_str app_name), SetStderrLogging m] @
          (if log_dir \<noteq> []
           then [SetLogFilenameExtension (c_str (app_name_without_path app_name)),
                 SetLogDestination m (c_str log_dir)]
           else []) @
          (case cwd of
             Some dir \<Rightarrow> [Write STDOUT_FILENO (''Current working dir: '' @ dir @ [CHR 0x0A])]
           | None \<Rightarrow> [])"
    by (rule StartArrowLog_glog_Done [OF b start])
  have ext: "(\<exists>tag. SetLogFilenameExtension tag \<in> set es) \<longleftrightarrow> log_dir \<noteq> []"
    using es by (auto split: option.splits)
  have dest: "(\<exists>m d. SetLogDestination m d \<in> set es) \<longleftrightarrow> log_dir \<noteq> []"
    using es by (auto split: option.splits)
  have tag: "tag = c_str (app_name_without_path app_name)"
    if "SetLogFilenameExtension tag \<in> set es" for tag
    using that es by (auto split: option.splits if_splits)
  have t1: "app_name = [] \<longrightarrow> app_name_without_path app_name = ''DefaultApp''"
    by (simp add: app_name_without_path_def)
  have t2: "\<forall>p n. app_name = p @ ''/'' @ n \<and> n \<noteq> [] \<and> CHR ''/'' \<notin> set n \<longrightarrow>
              app_name_without_path app_name = n"
    by (auto simp add: app_name_without_path_def rfind_last_slash)
  have t3: "app_name \<noteq> [] \<and> CHR ''/'' \<notin> set app_name \<longrightarrow>
              app_name_without_path app_name = app_name"
    using rfind_None [of app_name "CHR ''/''"] by (auto simp add: app_name_without_path_def)
  have t4: "\<forall>p. app_name = p @ ''/'' \<longrightarrow> app_name_without_path app_name = app_name"
    using rfind_last_slash [of "CHR ''/''" "[]"]
    by (auto simp add: app_name_without_path_def)
  have tags: "\<forall>tag. SetLogFilenameExtension tag \<in> set es \<longrightarrow>
            (app_name = [] \<longrightarrow> tag = ''DefaultApp'') \<and>
            (\<forall>p n. app_name = p @ ''/'' @ n \<and> n \<noteq> [] \<and> CHR ''/'' \<notin> set n \<longrightarrow> tag = c_str n) \<and>
            (app_name \<noteq> [] \<and> CHR ''/'' \<notin> set app_name \<longrightarrow> tag = c_str app_name) \<and>
            (\<forall>p. app_name = p @ ''/'' \<longrightarrow> tag = c_str app_name)"
  proof (intro allI impI)
    fix tag
    assume "SetLogFilenameExtension tag \<in> set es"
    then have eq: "tag = c_str (app_name_without_path app_name)"
      by (rule tag)
    have d: "c_str ''DefaultApp'' = ''DefaultApp''"
      by (simp add: c_str_def)
    show "(app_name = [] \<longrightarrow> tag = ''DefaultApp'') \<and>
            (\<forall>p n. app_name = p @ ''/'' @ n \<and> n \<noteq> [] \<and> CHR ''/'' \<notin> set n \<longrightarrow> tag = c_str n) \<and>
            (app_name \<noteq> [] \<and> CHR ''/'' \<notin> set app_name \<longrightarrow> tag = c_str app_name) \<and>
            (\<forall>p. app_name = p @ ''/'' \<longrightarrow> tag = c_str app_name)"
      unfolding eq using t1 t2 t3 t4 d by metis
  qed
  show ?thesis
    using ext dest tags by blast
qed

theorem C8_log_file_tag_witness:
  "use_glog glog_build \<and>
   StartArrowLog glog_build None initial_state ''/usr/bin/myapp'' ARROW_INFO ''/tmp/logs/'' =
     ([InitGoogleLogging ''/usr/bin/myapp'', SetStderrLogging GLOG_INFO,
       SetLogFilenameExtension ''myapp'', SetLogDestination GLOG_INFO ''/tmp/logs/''],
      Done \<lparr>severity_threshold_m = ARROW_INFO, app_name_m = Some ''/usr/bin/myapp'',
            working_dir_m = []\<rparr>) \<and>
   (\<exists>tag. SetLogFilenameExtension tag \<in>
            set [InitGoogleLogging ''/usr/bin/myapp'', SetStderrLogging GLOG_INFO,
                 SetLogFilenameExtension ''myapp'', SetLogDestination GLOG_INFO ''/tmp/logs/'']) \<and>
   SetLogFilenameExtension ''/usr/bin/myapp'' \<notin>
     set [InitGoogleLogging ''/usr/bin/myapp'', SetStderrLogging GLOG_INFO,
          SetLogFilenameExtension ''myapp'', SetLogDestination GLOG_INFO ''/tmp/logs/'']"
proof -
  let ?es = "[InitGoogleLogging ''/usr/bin/myapp'', SetStderrLogging GLOG_INFO,
       SetLogFilenameExtension ''myapp'', SetLogDestination GLOG_INFO ''/tmp/logs/'']"
  have h1: "use_glog glog_build"
    by (simp add: glog_build_def)
  have h2: "StartArrowLog glog_build None initial_state ''/usr/bin/myapp'' ARROW_INFO ''/tmp/logs/'' =
     (?es, Done \<lparr>severity_threshold_m = ARROW_INFO, app_name_m = Some ''/usr/bin/myapp'',
            working_dir_m = []\<rparr>)"
    by code_simp
  have h3: "''/usr/bin/myapp'' = ''/usr/bin'' @ ''/'' @ ''myapp'' \<and> ''myapp'' \<noteq> [] \<and>
            CHR ''/'' \<notin> set ''myapp''"
    by simp
  have h4: "''/usr/bin/myapp'' \<noteq> c_str ''myapp''"
    by (simp add: c_str_def)
  have h5: "''/tmp/logs/'' \<noteq> []"
    by simp
  note c8 = C8_log_file_tag [OF h1 h2]
  have ex: "\<exists>tag. SetLogFilenameExtension tag \<in> set ?es"
    using c8 h5 by blast
  have tag: "SetLogFilenameExtension ''/usr/bin/myapp'' \<in> set ?es \<longrightarrow>
             ''/usr/bin/myapp'' = c_str ''myapp''"
    using c8 h3 by blast
  show ?thesis
    using h1 h2 ex tag h4 by blast
qed

text \<open>
  C8 as stated fails at the application name \<open>bin/\<close> and the directory
  \<open>/tmp/logs\<close>: the tag keeps its path prefix, and the destination handed to glog
  has no separator appended.
\<close>

theorem C8_log_file_tag_counterexample:
  "StartArrowLog glog_build None initial_state ''bin/'' ARROW_INFO ''/tmp/logs'' =
     ([InitGoogleLogging ''bin/'', SetStderrLogging GLOG_INFO,
       SetLogFilenameExtension ''bin/'', SetLogDestination GLOG_INFO ''/tmp/logs''],
      Done \<lparr>severity_threshold_m = ARROW_INFO, app_name_m = Some ''bin/'', working_dir_m = []\<rparr>)"
  by code_simp

text \<open>
  C9, as amended. In the console build every write of a record, from construction to
  destruction (prefix, streamed content, line terminator and its flush), goes to
  standard error; the backtrace of a FATAL record goes to file descriptor 1, standard
  output; the startup operation writes its working-directory line to standard output
  and nothing else; shutdown and the installation of the signal handler write nothing.
\<close>

theorem C9_console_streams:
  assumes b: "\<not> use_glog b"
  shows "(\<forall>e \<in> set (fst (lifecycle b st f l s ts)).
            (\<exists>x. e = Write STDERR_FILENO x) \<or> e = Flush STDERR_FILENO \<or>
            e = BacktraceDump STDOUT_FILENO \<or> e = Abort) \<and>
         (\<forall>e \<in> set (fst (StartArrowLog b cwd st' app_name thr log_dir)).
            \<exists>x. e = Write STDOUT_FILENO x) \<and>
         fst (ShutDownArrowLog b) = [] \<and>
         fst (InstallFailureSignalHandler b) = []"
proof -
  obtain c where life: "lifecycle b st f l s ts =
             ((if s \<noteq> ARROW_DEBUG
               then map (\<lambda>t. Write STDERR_FILENO (render t)) [Str f, Str '':'', Num l, Str '': '']
               else []) @
              map (\<lambda>t. Write STDERR_FILENO (render t)) ts @ fst (CerrLog_delete b c),
              snd (CerrLog_delete b c))"
    by (rule lifecycle_console [OF b])
  have del: "\<forall>e \<in> set (fst (CerrLog_delete b c)).
            (\<exists>x. e = Write STDERR_FILENO x) \<or> e = Flush STDERR_FILENO \<or>
            e = BacktraceDump STDOUT_FILENO \<or> e = Abort"
    by (auto simp add: CerrLog_delete_events endl_def PrintBackTrace_def STDOUT_FILENO_def)
  have one: "\<forall>e \<in> set (fst (lifecycle b st f l s ts)).
            (\<exists>x. e = Write STDERR_FILENO x) \<or> e = Flush STDERR_FILENO \<or>
            e = BacktraceDump STDOUT_FILENO \<or> e = Abort"
    unfolding life using del by auto
  have two: "\<forall>e \<in> set (fst (StartArrowLog b cwd st' app_name thr log_dir)).
            \<exists>x. e = Write STDOUT_FILENO x"
    by (simp add: StartArrowLog_console [OF b] split: option.splits)
  have three: "fst (ShutDownArrowLog b) = []"
    using b by (simp add: ShutDownArrowLog_def ret_def)
  have four: "fst (InstallFailureSignalHandler b) = []"
    using b by (simp add: InstallFailureSignalHandler_def ret_def)
  show ?thesis
    using one two three four by blast
qed

theorem C9_console_streams_witness:
  "\<not> use_glog console_build \<and>
   Abort \<in> set (fst (lifecycle console_build initial_state ''file.cc'' 10 ARROW_FATAL [Str ''hello''])) \<and>
   BacktraceDump STDERR_FILENO \<notin>
     set (fst (lifecycle console_build initial_state ''file.cc'' 10 ARROW_FATAL [Str ''hello''])) \<and>
   Write STDOUT_FILENO ''hello'' \<notin>
     set (fst (lifecycle console_build initial_state ''file.cc'' 10 ARROW_FATAL [Str ''hello'']))"
proof -
  have h: "\<not> use_glog console_build"
    by (simp add: console_build_def)
  have a: "Abort \<in> set (fst (lifecycle console_build initial_state ''file.cc'' 10 ARROW_FATAL [Str ''hello'']))"
    by code_simp
  have ne: "STDOUT_FILENO \<noteq> STDERR_FILENO"
    by (simp add: STDOUT_FILENO_def STDERR_FILENO_def)
  let ?es = "fst (lifecycle console_build initial_state ''file.cc'' 10 ARROW_FATAL [Str ''hello''])"
  have every: "\<forall>e \<in> set ?es.
            (\<exists>x. e = Write STDERR_FILENO x) \<or> e = Flush STDERR_FILENO \<or>
            e = BacktraceDump STDOUT_FILENO \<or> e = Abort"
    using C9_console_streams [OF h, of initial_state "''file.cc''" 10 ARROW_FATAL "[Str ''hello'']"]
    by blast
  have dump: "BacktraceDump STDERR_FILENO \<notin> set ?es"
  proof
    assume "BacktraceDump STDERR_FILENO \<in> set ?es"
    from bspec [OF every this] show False
      using ne by simp
  qed
  have out: "Write STDOUT_FILENO ''hello'' \<notin> set ?es"
  proof
    assume "Write STDOUT_FILENO ''hello'' \<in> set ?es"
    from bspec [OF every this] show False
      using ne by simp
  qed
  show ?thesis
    using h a dump out by blast
qed

text \<open>
  C9 as stated fails: the startup operation prints its line with \<^verbatim>\<open>printf\<close>, to
  standard output, and the destructor of a FATAL record dumps the backtrace on file
  descriptor 1.
\<close>

theorem C9_console_streams_counterexample:
  "fst (StartArrowLog console_build (Some ''/home'') initial_state ''myapp'' ARROW_INFO []) =
     [Write STDOUT_FILENO (''Current working dir: /home'' @ [CHR 0x0A])] \<and>
   fst (lifecycle console_build initial_state ''file.cc'' 10 ARROW_FATAL []) =
     [Write STDERR_FILENO ''file.cc'', Write STDERR_FILENO '':'', Write STDERR_FILENO ''10'',
      Write STDERR_FILENO '': '', Write STDERR_FILENO [CHR 0x0A], Flush STDERR_FILENO,
      BacktraceDump STDOUT_FILENO, Abort] \<and>
   STDOUT_FILENO \<noteq> STDERR_FILENO"
  by code_simp

text \<open>
  C10. In the glog build a record whose enabled flag is false has a null provider, and
  \<^verbatim>\<open>Stream()\<close> on it dereferences the null pointer; a record whose flag is true
  has a glog message as provider, and \<^verbatim>\<open>Stream()\<close> returns that message's stream.
\<close>

theorem C10_disabled_record_null_handle:
  assumes b: "use_glog b" and new: "ArrowLog_new b st f l s = (es, Done r)"
  shows "(\<not> IsEnabled r \<longrightarrow>
            logging_provider_m r = None \<and> ArrowLog_Stream b r = ([], NullDereference)) \<and>
         (IsEnabled r \<longrightarrow>
            (\<exists>m. logging_provider_m r = Some (GlogProvider m)) \<and>
            ArrowLog_Stream b r = ([], Done (r, LogMessageStream)))"
  using ArrowLog_new_glog_cases [OF b new] b
  by (auto simp add: IsEnabled_def ArrowLog_Stream_def ret_def)

theorem C10_disabled_record_null_handle_witness:
  "use_glog glog_build \<and>
   ArrowLog_new glog_build initial_state ''file.cc'' 10 ARROW_DEBUG =
     ([], Done \<lparr>is_enabled_m = False, logging_provider_m = None\<rparr>) \<and>
   \<not> IsEnabled \<lparr>is_enabled_m = False, logging_provider_m = None\<rparr> \<and>
   ArrowLog_Stream glog_build \<lparr>is_enabled_m = False, logging_provider_m = None\<rparr> =
     ([], NullDereference)"
proof -
  have h1: "use_glog glog_build"
    by (simp add: glog_build_def)
  have h2: "ArrowLog_new glog_build initial_state ''file.cc'' 10 ARROW_DEBUG =
     ([], Done \<lparr>is_enabled_m = False, logging_provider_m = None\<rparr>)"
    by code_simp
  have h3: "\<not> IsEnabled \<lparr>is_enabled_m = False, logging_provider_m = None\<rparr>"
    by (simp add: IsEnabled_def)
  show ?thesis
    using C10_disabled_record_null_handle [OF h1 h2] h1 h2 h3 by blast
qed

end
